theory Spec2Isabelle
  imports Main "HOL-Library.Sublist"
begin

section \<open>Data model of main.go\<close>

text \<open>The user-specified command-line arguments (struct \<open>Params\<close>). Go's \<open>int\<close> is
  modelled by \<open>int\<close>: the program only compares these numbers.\<close>

record Params =
  Procs :: int
  Nlines :: int
  Command :: string
  Sep :: string
  Verbose :: bool
  ContinueOnError :: bool
  Ordered :: bool
  DryRun :: bool

text \<open>The arguments of each call that fill the template (struct \<open>tmplArgs\<close>).\<close>

record tmplArgs =
  Lines :: "string list"
  Xs :: "string list"

section \<open>makeCommandTmpl: rewriting the pattern and compiling it\<close>

text \<open>\<open>strings.Replace(s, old, new, -1)\<close>: every non-overlapping occurrence of \<open>old\<close>,
  leftmost first, is replaced. (For an empty \<open>old\<close> Go inserts \<open>new\<close> around every
  character; the program never calls it so, and the model leaves the string alone.)\<close>

function strings_Replace :: "string \<Rightarrow> string \<Rightarrow> string \<Rightarrow> string" where
  "strings_Replace [] old new = []"
| "strings_Replace (c # s) old new =
     (if old \<noteq> [] \<and> prefix old (c # s)
      then new @ strings_Replace (drop (length old) (c # s)) old new
      else c # strings_Replace s old new)"
  by pat_completeness auto
termination
  by (relation "measure (\<lambda>(s, old, new). length s)") (auto simp: neq_Nil_conv)

text \<open>The character class \<open>\d\<close> of Go's regexp package: the ASCII digits.\<close>

definition is_digit :: "char \<Rightarrow> bool" where
  "is_digit c = (c \<in> set ''0123456789'')"

text \<open>\<open>re.ReplaceAllStringFunc(v, f)\<close> for \<open>re = ({\d+})\<close> and the closure \<open>f\<close> of
  makeCommandTmpl. A match starts at an opening brace that is followed by one or more
  digits and a closing brace; matches are found leftmost first and do not overlap. The
  closure keeps \<open>match[1:len(match)-1]\<close>, the digits, verbatim.\<close>

function replace_indexed :: "string \<Rightarrow> string" where
  "replace_indexed [] = []"
| "replace_indexed (c # s) =
     (let ds = takeWhile is_digit s; rest = dropWhile is_digit s in
      if c = CHR ''{'' \<and> ds \<noteq> [] \<and> rest \<noteq> [] \<and> hd rest = CHR ''}''
      then ''{{index .Xs '' @ ds @ ''}}'' @ replace_indexed (tl rest)
      else c # replace_indexed s)"
  by pat_completeness auto
termination
proof (relation "measure length")
  show "wf (measure length)" by simp
next
  fix c :: char and s x xa
  assume "xa = dropWhile is_digit s"
  moreover have "length (dropWhile is_digit s) \<le> length s"
    by (rule length_dropWhile_le)
  ultimately show "(tl xa, c # s) \<in> measure length" by simp
next
  fix c :: char and s :: string
  show "(s, c # s) \<in> measure length" by simp
qed

section \<open>The fragment of text/template the rewritten pattern uses\<close>

text \<open>Everything that ends the process or a call with an error. \<open>OutsideFragment\<close> is
  not an error of the program: it marks a template whose actions this model of
  text/template does not interpret (see \<open>parse_action\<close>).\<close>

datatype error =
  UnclosedAction
  | OutsideFragment
  | IndexOutOfRange nat
  | ReadError
  | OpenError

datatype field = FLines | FXs

text \<open>A parsed template is a list of nodes: literal text, or the action
  \<open>{{index .Lines n}}\<close> or \<open>{{index .Xs n}}\<close>.\<close>

datatype node = TextNode string | IndexNode field nat

type_synonym template = "node list"

text \<open>\<open>cut d s\<close> splits \<open>s\<close> around the first occurrence of the delimiter \<open>d\<close>, as the
  template lexer does when it looks for the next \<open>{{\<close> and bufio does for the next
  newline.\<close>

fun cut :: "string \<Rightarrow> string \<Rightarrow> (string \<times> string) option" where
  "cut d [] = (if d = [] then Some ([], []) else None)"
| "cut d (c # s) =
     (if prefix d (c # s) then Some ([], drop (length d) (c # s))
      else map_option (\<lambda>(t, r). (c # t, r)) (cut d s))"

definition digit_val :: "char \<Rightarrow> nat" where
  "digit_val c = of_char c - 48"

definition decimal :: "string \<Rightarrow> nat" where
  "decimal ds = foldl (\<lambda>n c. 10 * n + digit_val c) 0 ds"

text \<open>The number of an \<open>index\<close> action. text/template reads it as a Go integer literal:
  a decimal numeral without a leading zero that fits a 64-bit \<open>int\<close> is that number.
  Other digit strings (a leading zero makes the literal octal, larger numbers are rejected
  or mistyped, depending on the Go release) are outside the fragment.\<close>

definition parse_number :: "string \<Rightarrow> nat option" where
  "parse_number ds =
     (if ds \<noteq> [] \<and> list_all is_digit ds \<and> (ds = ''0'' \<or> hd ds \<noteq> CHR ''0'')
         \<and> decimal ds < 2 ^ 63
      then Some (decimal ds) else None)"

definition parse_action :: "string \<Rightarrow> error + node" where
  "parse_action body =
     (if prefix ''index .Lines '' body then
        (case parse_number (drop 13 body) of
           Some n \<Rightarrow> Inr (IndexNode FLines n) | None \<Rightarrow> Inl OutsideFragment)
      else if prefix ''index .Xs '' body then
        (case parse_number (drop 10 body) of
           Some n \<Rightarrow> Inr (IndexNode FXs n) | None \<Rightarrow> Inl OutsideFragment)
      else Inl OutsideFragment)"

text \<open>\<open>template.New(v).Parse(v)\<close>: text up to the next \<open>{{\<close> is a text node; what stands
  between \<open>{{\<close> and the next \<open>}}\<close> is an action; \<open>{{\<close> that is never closed is a parse
  error.\<close>

function parse_template :: "string \<Rightarrow> error + template" where
  "parse_template s =
     (case cut ''{{'' s of
        None \<Rightarrow> Inr [TextNode s]
      | Some (t, r) \<Rightarrow>
          (case cut ''}}'' r of
             None \<Rightarrow> Inl UnclosedAction
           | Some (body, r') \<Rightarrow>
               (case parse_action body of
                  Inl e \<Rightarrow> Inl e
                | Inr n \<Rightarrow>
                    (case parse_template r' of
                       Inl e \<Rightarrow> Inl e
                     | Inr ns \<Rightarrow> Inr (TextNode t # n # ns)))))"
  by pat_completeness auto
termination
proof (relation "measure length")
  show "wf (measure length)" by simp
next
  fix s x2 t r x2a body r' x2b
  have len: "length r \<le> length s" if "cut d s = Some (t, r)" for d s t r
    using that
  proof (induction s arbitrary: t r)
    case Nil
    then show ?case by (simp split: if_splits)
  next
    case (Cons c s)
    then show ?case by (auto split: if_splits)
  qed
  assume a: "cut ''{{'' s = Some x2" "(t, r) = x2" "cut ''}}'' r = Some x2a" "(body, r') = x2a"
  from a have "cut ''{{'' s = Some (t, r)" by simp
  then have "length r < length s"
  proof (induction s arbitrary: t r)
    case Nil
    then show ?case by simp
  next
    case (Cons c s)
    then show ?case by (auto split: if_splits)
  qed
  moreover from a have "cut ''}}'' r = Some (body, r')" by simp
  then have "length r' \<le> length r" by (rule len)
  ultimately show "(r', s) \<in> measure length" by simp
qed

declare parse_template.simps [simp del]

text \<open>\<open>tmpl.Execute(&buf, args)\<close>: text nodes are written as they are; \<open>index\<close> fails on
  an index that is not below the length of the slice.\<close>

definition field_of :: "field \<Rightarrow> tmplArgs \<Rightarrow> string list" where
  "field_of f a = (case f of FLines \<Rightarrow> Lines a | FXs \<Rightarrow> Xs a)"

fun exec_node :: "node \<Rightarrow> tmplArgs \<Rightarrow> error + string" where
  "exec_node (TextNode t) a = Inr t"
| "exec_node (IndexNode f n) a =
     (if n < length (field_of f a) then Inr (field_of f a ! n) else Inl (IndexOutOfRange n))"

fun Execute :: "template \<Rightarrow> tmplArgs \<Rightarrow> error + string" where
  "Execute [] a = Inr []"
| "Execute (n # ns) a =
     (case exec_node n a of
        Inl e \<Rightarrow> Inl e
      | Inr s \<Rightarrow> (case Execute ns a of Inl e \<Rightarrow> Inl e | Inr r \<Rightarrow> Inr (s @ r)))"

text \<open>makeCommandTmpl; \<open>Inl\<close> is \<open>check(err)\<close> ending the process with log.Fatal, except
  for \<open>OutsideFragment\<close>, which says nothing about the program.\<close>

definition makeCommandTmpl :: "string \<Rightarrow> error + template" where
  "makeCommandTmpl cmd =
     parse_template (replace_indexed (strings_Replace cmd ''{}'' ''{{index .Lines 0}}''))"

section \<open>genCommands: reading lines, batching, rendering\<close>

text \<open>What the process has written and handed over so far: the bytes on standard error
  and on standard output, and the commands sent on the channel \<open>ch\<close> that feeds the
  execution engine, in the order they were sent.\<close>

record world =
  stderr :: string
  stdout :: string
  ch :: "string list"

text \<open>Runtime panics of Go that the program can reach.\<close>

datatype panic = CloseOfClosedChannel | MakesliceCapOutOfRange | RegexpMustCompile

definition handleCommand :: "Params \<Rightarrow> string \<Rightarrow> world \<Rightarrow> world" where
  "handleCommand args cmd w =
     (let w1 = (if Verbose args
                then w\<lparr>stderr := stderr w @ ''command: '' @ cmd @ [CHR 0x0A]\<rparr> else w)
      in if DryRun args then w1\<lparr>stdout := stdout w1 @ cmd @ [CHR 0x0A]\<rparr>
         else w1\<lparr>ch := ch w1 @ [cmd]\<rparr>)"

text \<open>A compiled regular expression is represented by its method \<open>Split(s, -1)\<close>, the
  only one genCommands calls on the separator. The regexp package is not part of the
  program: \<open>compile\<close>, a parameter of the model, gives the split of a pattern, or
  \<open>None\<close> where \<open>regexp.MustCompile\<close> panics.\<close>

type_synonym regexp = "string \<Rightarrow> string list"

text \<open>The input stream: its bytes, and how the read that finds no more bytes ends
  (\<open>io.EOF\<close> or another error).\<close>

datatype read_end = EOF | ReadFailure

record reader =
  content :: string
  ending :: read_end

text \<open>\<open>rdr.ReadString('\n')\<close>: the bytes up to and including the next newline and no
  error, or the remaining bytes and the error that ended the stream.\<close>

definition ReadString :: "reader \<Rightarrow> string \<times> read_end option \<times> reader" where
  "ReadString rdr =
     (case cut [CHR 0x0A] (content rdr) of
        Some (l, rest) \<Rightarrow> (l @ [CHR 0x0A], None, rdr\<lparr>content := rest\<rparr>)
      | None \<Rightarrow> (content rdr, Some (ending rdr), rdr\<lparr>content := []\<rparr>))"

text \<open>\<open>re.ReplaceAllString(line, "")\<close> for \<open>re = \r?\n\<close>: every newline is removed,
  together with a carriage return right before it.\<close>

fun strip_newlines :: "string \<Rightarrow> string" where
  "strip_newlines (a # b # s) =
     (if a = CHR 0x0D \<and> b = CHR 0x0A then strip_newlines s
      else if a = CHR 0x0A then strip_newlines (b # s)
      else a # strip_newlines (b # s))"
| "strip_newlines [a] = (if a = CHR 0x0A then [] else [a])"
| "strip_newlines [] = []"

text \<open>One pass of the loop body for a line that was read (lines 93 to 100 and 107 to
  111). \<open>buf\<close> was reset at the top of the pass; in separator mode it holds the command
  just rendered when the batch test runs. The result is the world and either the error
  handed to \<open>check\<close> or the new \<open>lines\<close>.\<close>

definition gen_step ::
  "Params \<Rightarrow> template \<Rightarrow> regexp option \<Rightarrow> string \<Rightarrow> string list \<Rightarrow> world
     \<Rightarrow> world \<times> (error + string list)" where
  "gen_step args tmpl resep line lines w =
     (case (case resep of
              Some split \<Rightarrow>
                (case Execute tmpl \<lparr>Lines = [line], Xs = split line\<rparr> of
                   Inl e \<Rightarrow> Inl e
                 | Inr out \<Rightarrow> Inr (out, lines, handleCommand args out w))
            | None \<Rightarrow> Inr ([], lines @ [line], w)) of
        Inl e \<Rightarrow> (w, Inl e)
      | Inr (buf, lines1, w1) \<Rightarrow>
          if int (length lines1) = Nlines args then
            (case Execute tmpl \<lparr>Lines = lines1, Xs = lines1\<rparr> of
               Inl e \<Rightarrow> (w1, Inl e)
             | Inr out \<Rightarrow> (handleCommand args (buf @ out) w1, Inr []))
          else (w1, Inr lines1))"

text \<open>The \<open>for\<close> loop of the goroutine. It ends with \<open>Inr lines\<close> at the \<open>break\<close> and
  with \<open>Inl e\<close> where log.Fatal ends the process.\<close>

function gen_loop ::
  "Params \<Rightarrow> template \<Rightarrow> regexp option \<Rightarrow> reader \<Rightarrow> string list \<Rightarrow> world
     \<Rightarrow> world \<times> (error + string list)" where
  "gen_loop args tmpl resep rdr lines w =
     (case ReadString rdr of
        (line, err, rdr') \<Rightarrow>
          if err = None \<or> (err = Some EOF \<and> line \<noteq> []) then
            (case gen_step args tmpl resep (strip_newlines line) lines w of
               (w1, Inl e) \<Rightarrow> (w1, Inl e)
             | (w1, Inr lines1) \<Rightarrow> gen_loop args tmpl resep rdr' lines1 w1)
          else if err = Some EOF then (w, Inr lines)
          else (w, Inl ReadError))"
  by pat_completeness auto
termination
proof (relation "measure (\<lambda>(args, tmpl, resep, rdr, lines, w). length (content rdr))")
  show "wf (measure (\<lambda>(args, tmpl, resep, rdr, lines, w). length (content rdr)))" by simp
next
  fix args :: Params and tmpl :: template and resep :: "regexp option" and rdr :: reader
    and lines :: "string list" and w :: world and line y err rdr' w1 r lines1
  assume a: "(line, y) = ReadString rdr" "(err, rdr') = y"
    "err = None \<or> err = Some EOF \<and> line \<noteq> []"
  have len: "length r < length s" if "cut [CHR 0x0A] s = Some (t, r)" for s t r
    using that by (induction s arbitrary: t r) (auto split: if_splits)
  from a have rs: "ReadString rdr = (line, err, rdr')" by simp
  have "length (content rdr') < length (content rdr)"
  proof (cases "cut [CHR 0x0A] (content rdr)")
    case None
    with rs a(3) show ?thesis by (auto simp: ReadString_def)
  next
    case (Some p)
    then obtain t r where "cut [CHR 0x0A] (content rdr) = Some (t, r)" by (cases p) simp
    with rs len [of "content rdr" t r] show ?thesis by (auto simp: ReadString_def)
  qed
  then show "((args, tmpl, resep, rdr', lines1, w1), args, tmpl, resep, rdr, lines, w)
      \<in> measure (\<lambda>(args, tmpl, resep, rdr, lines, w). length (content rdr))"
    by simp
qed

declare gen_loop.simps [simp del]

text \<open>How the goroutine of genCommands ends: it closes the channel, log.Fatal ends the
  process, or the goroutine panics.\<close>

datatype gen_end = ChannelClosed | Fatal error | Panicked panic

text \<open>What the goroutine does after the loop (lines 113 to 117): \<open>buf\<close> was reset at the
  top of the pass that broke out of the loop.\<close>

definition gen_finish :: "Params \<Rightarrow> template \<Rightarrow> world \<times> (error + string list) \<Rightarrow> world \<times> gen_end" where
  "gen_finish args tmpl r =
     (case r of
        (w1, Inl e) \<Rightarrow> (w1, Fatal e)
      | (w1, Inr lines) \<Rightarrow>
          if lines \<noteq> [] then
            (case Execute tmpl \<lparr>Lines = lines, Xs = lines\<rparr> of
               Inl e \<Rightarrow> (w1, Fatal e)
             | Inr out \<Rightarrow> (handleCommand args out w1, ChannelClosed))
          else (w1, ChannelClosed))"

text \<open>genCommands. \<open>opened\<close> is the result of \<open>xopen.Ropen("-")\<close>. The goroutine and the
  consumer of \<open>ch\<close> are run one after the other here: \<open>ch\<close> collects the commands in the
  order they are sent. A negative capacity makes \<open>make([]string, 0, args.Nlines)\<close>
  panic.\<close>

definition genCommands ::
  "(string \<Rightarrow> regexp option) \<Rightarrow> Params \<Rightarrow> template \<Rightarrow> error + reader \<Rightarrow> world
     \<Rightarrow> world \<times> gen_end" where
  "genCommands compile args tmpl opened w =
     (case (if Sep args \<noteq> [] then
              (case compile (Sep args) of
                 None \<Rightarrow> Inl RegexpMustCompile | Some r \<Rightarrow> Inr (Some r))
            else Inr None) of
        Inl p \<Rightarrow> (w, Panicked p)
      | Inr resep \<Rightarrow>
          (case opened of
             Inl e \<Rightarrow> (w, Fatal e)
           | Inr rdr \<Rightarrow>
               if Nlines args < 0 then (w, Panicked MakesliceCapOutOfRange)
               else gen_finish args tmpl (gen_loop args tmpl resep rdr [] w)))"

section \<open>run and main: draining the results of the execution engine\<close>

text \<open>A result delivered by \<open>process.Runner\<close>: what its method \<open>ExitCode()\<close> returns and
  the bytes its reader yields.\<close>

record proc =
  pExitCode :: int
  pOutput :: string

text \<open>A Go channel that is only ever closed, like \<open>cancel\<close>: \<open>close\<close> of a channel that
  is closed already is a runtime panic.\<close>

datatype chan = Open | Closed

definition close_chan :: "chan \<Rightarrow> panic + chan" where
  "close_chan c = (case c of Open \<Rightarrow> Inr Closed | Closed \<Rightarrow> Inl CloseOfClosedChannel)"

definition max_go :: "int \<Rightarrow> int \<Rightarrow> int" where
  "max_go a b = (if a > b then a else b)"

text \<open>The state of run: the package variable \<open>ExitCode\<close>, the bytes written to the
  buffered writer \<open>stdout\<close>, and the channel \<open>cancel\<close>.\<close>

record run_state =
  ExitCode :: int
  stdout_buf :: string
  cancel :: chan

text \<open>The loop over the results (lines 140 to 149). The second component is the panic
  that ended it, if one did; the \<open>break\<close> ends it without one.\<close>

fun run_loop :: "Params \<Rightarrow> proc list \<Rightarrow> run_state \<Rightarrow> run_state \<times> panic option" where
  "run_loop args [] st = (st, None)"
| "run_loop args (p # ps) st =
     (let ex = pExitCode p in
      if ex \<noteq> 0 then
        (let st1 = st\<lparr>ExitCode := max_go (ExitCode st) ex\<rparr> in
         if \<not> ContinueOnError args then
           (case close_chan (cancel st1) of
              Inl e \<Rightarrow> (st1, Some e)
            | Inr c \<Rightarrow> (st1\<lparr>cancel := c\<rparr>, None))
         else run_loop args ps (st1\<lparr>stdout_buf := stdout_buf st1 @ pOutput p\<rparr>))
      else run_loop args ps (st\<lparr>stdout_buf := stdout_buf st @ pOutput p\<rparr>))"

text \<open>How the process ends: with an exit status, with an uncaught panic (the Go runtime
  then exits with status 2), or in the argument parser's \<open>Fail\<close>. \<open>Unmodelled\<close> stands
  for the runs of a pattern whose template is outside the fragment of text/template
  modelled here.\<close>

datatype process_end = Exited int | Crashed panic | UsageRejected | Unmodelled

text \<open>The deferred calls of run, in the order they run: \<open>close(cancel)\<close>, then
  \<open>stdout.Flush()\<close>, which also runs while a panic unwinds. The result is the world and
  either the panic or the value of \<open>ExitCode\<close>.\<close>

definition run_deferred :: "run_state \<times> panic option \<Rightarrow> world \<Rightarrow> world \<times> (panic + int)" where
  "run_deferred r w =
     (case r of (st, pending) \<Rightarrow>
        (let w' = w\<lparr>stdout := stdout w @ stdout_buf st\<rparr> in
         case close_chan (cancel st) of
           Inl e \<Rightarrow> (w', Inl e)
         | Inr c \<Rightarrow> (case pending of Some e \<Rightarrow> (w', Inl e) | None \<Rightarrow> (w', Inr (ExitCode st)))))"

text \<open>run. The execution engine (package process) is a parameter: \<open>runner cmds\<close> is the
  sequence of results \<open>process.Runner\<close> delivers for the commands sent on the channel, as
  long as the loop keeps receiving. \<open>ec\<close> is the value of \<open>ExitCode\<close> on entry. The
  generator is run to its end before the results are drained; log.Fatal in \<open>check\<close> ends
  the process with status 1.\<close>

definition run ::
  "(string \<Rightarrow> regexp option) \<Rightarrow> (string list \<Rightarrow> proc list) \<Rightarrow> Params \<Rightarrow> error + reader
     \<Rightarrow> int \<Rightarrow> world \<Rightarrow> world \<times> (process_end + int)" where
  "run compile runner args opened ec w =
     (case makeCommandTmpl (Command args) of
        Inl e \<Rightarrow> (w, Inl (if e = OutsideFragment then Unmodelled else Exited 1))
      | Inr tmpl \<Rightarrow>
          (case genCommands compile args tmpl opened w of
             (w1, Fatal e) \<Rightarrow> (w1, Inl (Exited 1))
           | (w1, Panicked p) \<Rightarrow> (w1, Inl (Crashed p))
           | (w1, ChannelClosed) \<Rightarrow>
               (case run_deferred
                       (run_loop args (runner (ch w1))
                          \<lparr>ExitCode = ec, stdout_buf = [], cancel = Open\<rparr>) w1 of
                  (w2, Inl p) \<Rightarrow> (w2, Inl (Crashed p))
                | (w2, Inr ec') \<Rightarrow> (w2, Inr ec'))))"

text \<open>main, after the arguments were parsed into \<open>args\<close>. \<open>is_stdin\<close> is
  \<open>xopen.IsStdin()\<close>; \<open>ExitCode\<close> starts at 0.\<close>

definition main ::
  "(string \<Rightarrow> regexp option) \<Rightarrow> (string list \<Rightarrow> proc list) \<Rightarrow> Params \<Rightarrow> bool
     \<Rightarrow> error + reader \<Rightarrow> world \<Rightarrow> world \<times> process_end" where
  "main compile runner args is_stdin opened w =
     (if Sep args \<noteq> [] \<and> Nlines args > 1 then (w, UsageRejected)
      else if \<not> is_stdin then
        (w\<lparr>stderr := stderr w @ ''ERROR: expecting input on STDIN'' @ [CHR 0x0A]\<rparr>, Exited 255)
      else
        (case run compile runner args opened 0 w of
           (w', Inl e) \<Rightarrow> (w', e)
         | (w', Inr ec) \<Rightarrow> (w', Exited ec)))"

section \<open>Auxiliary notions used in the statements\<close>

text \<open>The results the loop of run takes from the stream: all of them when errors are
  tolerated, otherwise those up to and including the first with a non-zero status, at
  which it breaks.\<close>

fun received :: "Params \<Rightarrow> proc list \<Rightarrow> proc list" where
  "received args [] = []"
| "received args (p # ps) =
     (if pExitCode p \<noteq> 0 \<and> \<not> ContinueOnError args then [p] else p # received args ps)"

text \<open>The results whose output reaches \<open>io.Copy\<close>.\<close>

fun copied :: "Params \<Rightarrow> proc list \<Rightarrow> proc list" where
  "copied args [] = []"
| "copied args (p # ps) =
     (if pExitCode p \<noteq> 0 \<and> \<not> ContinueOnError args then [] else p # copied args ps)"



text \<open>The lines of an input, as the loop of genCommands frames them: each newline ends a
  line, and a carriage return right before that newline is dropped with it; what follows the
  last newline is a line of its own unless it is empty.\<close>

definition chomp_cr :: "string \<Rightarrow> string" where
  "chomp_cr l = (if l \<noteq> [] \<and> last l = CHR 0x0D then butlast l else l)"

function input_lines :: "string \<Rightarrow> string list" where
  "input_lines s =
     (case cut [CHR 0x0A] s of
        Some (l, rest) \<Rightarrow> chomp_cr l # input_lines rest
      | None \<Rightarrow> if s = [] then [] else [s])"
  by pat_completeness auto
termination
proof (relation "measure length")
  show "wf (measure length)" by simp
next
  fix s :: string and x2 l rest
  assume a: "cut [CHR 0x0A] s = Some x2" "(l, rest) = x2"
  have len: "length r < length s" if "cut [CHR 0x0A] s = Some (t, r)" for s t r
    using that by (induction s arbitrary: t r) (auto split: if_splits)
  from a have "cut [CHR 0x0A] s = Some (l, rest)" by simp
  then show "(rest, s) \<in> measure length" using len by simp
qed

declare input_lines.simps [simp del]

text \<open>The loop body of genCommands applied to a list of lines, one after the other.\<close>

fun gen_lines ::
  "Params \<Rightarrow> template \<Rightarrow> regexp option \<Rightarrow> string list \<Rightarrow> string list \<Rightarrow> world
     \<Rightarrow> world \<times> (error + string list)" where
  "gen_lines args tmpl resep [] lines w = (w, Inr lines)"
| "gen_lines args tmpl resep (l # ls) lines w =
     (case gen_step args tmpl resep l lines w of
        (w1, Inl e) \<Rightarrow> (w1, Inl e)
      | (w1, Inr lines1) \<Rightarrow> gen_lines args tmpl resep ls lines1 w1)"

text \<open>\<open>handleCommand\<close> applied to a list of commands, first to last.\<close>

fun handleCommands :: "Params \<Rightarrow> string list \<Rightarrow> world \<Rightarrow> world" where
  "handleCommands args [] w = w"
| "handleCommands args (c # cs) w = handleCommands args cs (handleCommand args c w)"



text \<open>Commands written one per line.\<close>

definition unl :: "string list \<Rightarrow> string" where
  "unl cs = concat (map (\<lambda>c. c @ [CHR 0x0A]) cs)"




text \<open>Element \<open>n\<close> of a sequence, or the error of an index out of range.\<close>

definition elem :: "string list \<Rightarrow> nat \<Rightarrow> error + string" where
  "elem xs n = (if n < length xs then Inr (xs ! n) else Inl (IndexOutOfRange n))"








abbreviation "sA s \<equiv> strings_Replace s ''{}'' ''{{index .Lines 0}}''"




section \<open>The loop of run\<close>




lemma run_loop_stdout:
  "stdout_buf (fst (run_loop args ps st)) = stdout_buf st @ concat (map pOutput (copied args ps))"
  by (induction ps arbitrary: st) (auto simp: Let_def close_chan_def split: sum.splits chan.splits)


lemma received_eq:
  "received args ps = (if ContinueOnError args then ps
     else takeWhile (\<lambda>p. pExitCode p = 0) ps @ take 1 (dropWhile (\<lambda>p. pExitCode p = 0) ps))"
  by (induction ps) auto

text \<open>Claim C1 says that closing the cancellation channel a second time, as the teardown
  of run does after a failure has closed it, completes without error. The code does not
  behave so. With errors not tolerated, a single result with exit status 1 makes the loop
  close \<open>cancel\<close> and break; the deferred \<open>close(cancel)\<close> then closes the closed channel,
  which is a runtime panic in Go.\<close>

theorem failure_closes_cancel_twice:
  "snd (run_deferred (run_loop
      \<lparr>Procs = 1, Nlines = 1, Command = ''false'', Sep = [], Verbose = False,
        ContinueOnError = False, Ordered = False, DryRun = False\<rparr>
      [\<lparr>pExitCode = 1, pOutput = []\<rparr>]
      \<lparr>ExitCode = 0, stdout_buf = [], cancel = Open\<rparr>)
      \<lparr>stderr = [], stdout = [], ch = []\<rparr>) = Inl CloseOfClosedChannel"
  by (simp add: close_chan_def run_deferred_def)

text \<open>Claim C2 says that the output of every received result is copied, the result that
  triggers cancellation included. Counterexample: with errors not tolerated, the output
  \<open>x\<close> of a result with exit status 1 is not written; the loop breaks before
  \<open>io.Copy\<close>.\<close>

theorem cancelling_result_output_dropped:
  "stdout_buf (fst (run_loop
      \<lparr>Procs = 1, Nlines = 1, Command = ''false'', Sep = [], Verbose = False,
        ContinueOnError = False, Ordered = False, DryRun = False\<rparr>
      [\<lparr>pExitCode = 1, pOutput = ''x''\<rparr>]
      \<lparr>ExitCode = 0, stdout_buf = [], cancel = Open\<rparr>)) = []"
  by (simp add: close_chan_def)

text \<open>Claim C2 as amended: the loop copies, in full and in the order of arrival, the output
  of every result when errors are tolerated, and otherwise the output of the results that
  precede the first one with a non-zero status; that result ends the loop and its output
  is not copied.\<close>

theorem output_copied_unless_cancelling:
  "stdout_buf (fst (run_loop args ps st))
   = stdout_buf st @ concat (map pOutput
       (if ContinueOnError args then ps else takeWhile (\<lambda>p. pExitCode p = 0) ps))"
proof -
  have "copied args ps
      = (if ContinueOnError args then ps else takeWhile (\<lambda>p. pExitCode p = 0) ps)"
    by (induction ps) auto
  then show ?thesis by (simp add: run_loop_stdout)
qed

text \<open>Claim C3 says that the final exit status of the process is the highest exit status
  observed, also on the path where a non-zero status triggers cancellation. On that path
  the process does not reach \<open>os.Exit(ExitCode)\<close>: for the pattern \<open>false\<close>, one input
  line and a command that exits with status 1, run panics in its deferred
  \<open>close(cancel)\<close> and the process crashes (status 2 of the Go runtime) instead of
  exiting with status 1.\<close>

theorem failing_command_crashes_process:
  "snd (main (\<lambda>re. None) (map (\<lambda>c. \<lparr>pExitCode = 1, pOutput = []\<rparr>))
      \<lparr>Procs = 1, Nlines = 1, Command = ''false'', Sep = [], Verbose = False,
        ContinueOnError = False, Ordered = False, DryRun = False\<rparr>
      True (Inr \<lparr>content = ''a'' @ [CHR 0x0A], ending = EOF\<rparr>)
      \<lparr>stderr = [], stdout = [], ch = []\<rparr>) = Crashed CloseOfClosedChannel"
  by (simp add: main_def run_def makeCommandTmpl_def parse_template.simps genCommands_def gen_finish_def
      gen_loop.simps ReadString_def gen_step_def handleCommand_def run_deferred_def close_chan_def
      max_go_def Let_def)


section \<open>The generator: line framing and batching\<close>

lemma cut_newline_Some:
  "cut [CHR 0x0A] s = Some (l, r) \<Longrightarrow> CHR 0x0A \<notin> set l \<and> s = l @ CHR 0x0A # r"
  by (induction s arbitrary: l r) (auto split: if_splits)

lemma cut_newline_None: "cut [CHR 0x0A] s = None \<Longrightarrow> CHR 0x0A \<notin> set s"
  by (induction s) (auto split: if_splits)

lemma strip_no_newline: "CHR 0x0A \<notin> set l \<Longrightarrow> strip_newlines l = l"
  by (induction l rule: strip_newlines.induct) auto

lemma strip_terminated: "CHR 0x0A \<notin> set l \<Longrightarrow> strip_newlines (l @ [CHR 0x0A]) = chomp_cr l"
proof (induction l rule: strip_newlines.induct)
  case (1 a b s)
  then show ?case by (cases s) (auto simp: chomp_cr_def)
next
  case (2 a)
  then show ?case by (auto simp: chomp_cr_def)
next
  case 3
  then show ?case by (simp add: chomp_cr_def)
qed

lemma gen_loop_lines:
  "ending rdr = EOF \<Longrightarrow>
   gen_loop args tmpl resep rdr lines w
     = gen_lines args tmpl resep (input_lines (content rdr)) lines w"
proof (induction args tmpl resep rdr lines w rule: gen_loop.induct)
  case (1 args tmpl resep rdr lines w)
  show ?case
  proof (cases "cut [CHR 0x0A] (content rdr)")
    case None
    then have nl: "CHR 0x0A \<notin> set (content rdr)" by (rule cut_newline_None)
    show ?thesis
    proof (cases "content rdr = []")
      case True
      with None 1(2) show ?thesis
        by (subst gen_loop.simps, subst input_lines.simps) (simp add: ReadString_def)
    next
      case False
      have il: "input_lines [] = []" by (subst input_lines.simps) simp
      have gl: "gen_loop args tmpl resep (rdr\<lparr>content := []\<rparr>) lines1 w1 = (w1, Inr lines1)" for lines1 w1
        using 1(2) by (subst gen_loop.simps) (simp add: ReadString_def)
      from False None 1(2) show ?thesis
        by (subst gen_loop.simps, subst input_lines.simps)
          (auto simp: ReadString_def strip_no_newline [OF nl] gl split: prod.splits sum.splits)
    qed
  next
    case (Some p)
    obtain l r where p: "p = (l, r)" by (cases p)
    from Some p have c: "cut [CHR 0x0A] (content rdr) = Some (l, r)" by simp
    then have nl: "CHR 0x0A \<notin> set l" using cut_newline_Some by blast
    have rs: "ReadString rdr = (l @ [CHR 0x0A], None, rdr\<lparr>content := r\<rparr>)"
      using c by (simp add: ReadString_def)
    show ?thesis
    proof (cases "gen_step args tmpl resep (chomp_cr l) lines w")
      case (Pair w1 res)
      show ?thesis
      proof (cases res)
        case (Inl e)
        with Pair c rs show ?thesis
          by (subst gen_loop.simps, subst input_lines.simps) (simp add: strip_terminated [OF nl])
      next
        case (Inr lines1)
        have "gen_loop args tmpl resep (rdr\<lparr>content := r\<rparr>) lines1 w1
          = gen_lines args tmpl resep (input_lines (content (rdr\<lparr>content := r\<rparr>))) lines1 w1"
          using 1(2) Pair Inr
          by (intro 1(1) [OF rs [symmetric] refl _ _ refl]) (simp_all add: strip_terminated [OF nl])
        with Pair Inr c rs show ?thesis
          by (subst gen_loop.simps, subst input_lines.simps) (simp add: strip_terminated [OF nl])
      qed
    qed
  qed
qed


lemma input_lines_Nil: "input_lines [] = []"
  by (subst input_lines.simps) simp

lemma cut_newline_append:
  "CHR 0x0A \<notin> set l \<Longrightarrow> cut [CHR 0x0A] (l @ CHR 0x0A # rest) = Some (l, rest)"
  by (induction l) auto

lemma cut_newline_none: "CHR 0x0A \<notin> set l \<Longrightarrow> cut [CHR 0x0A] l = None"
  by (induction l) auto

lemma input_lines_terminated:
  "CHR 0x0A \<notin> set l \<Longrightarrow> input_lines (l @ CHR 0x0A # rest) = chomp_cr l # input_lines rest"
  by (subst input_lines.simps) (simp add: cut_newline_append)

lemma input_lines_last:
  "CHR 0x0A \<notin> set l \<Longrightarrow> l \<noteq> [] \<Longrightarrow> input_lines l = [l]"
  by (subst input_lines.simps) (simp add: cut_newline_none)

text \<open>Claim C10 says that a trailing carriage return is stripped from every line consumed,
  and that a final line without a newline still counts. Counterexample to the first half:
  the input \<open>abc\<close> followed by a carriage return and then the end of the stream makes the
  pattern \<open>{}\<close> produce the command \<open>abc\<close> with the carriage return still attached. The
  expression \<open>\r?\n\<close> only removes a carriage return that stands before a newline.\<close>

theorem unterminated_line_keeps_carriage_return:
  "ch (fst (main (\<lambda>re. None) (\<lambda>cmds. [])
      \<lparr>Procs = 1, Nlines = 1, Command = ''{}'', Sep = [], Verbose = False,
        ContinueOnError = False, Ordered = False, DryRun = False\<rparr>
      True (Inr \<lparr>content = ''abc'' @ [CHR 0x0D], ending = EOF\<rparr>)
      \<lparr>stderr = [], stdout = [], ch = []\<rparr>)) = [''abc'' @ [CHR 0x0D]]"
  by (simp add: main_def run_def makeCommandTmpl_def parse_template.simps genCommands_def gen_finish_def
      gen_loop.simps ReadString_def gen_step_def handleCommand_def run_deferred_def close_chan_def
      max_go_def Let_def parse_action_def parse_number_def is_digit_def decimal_def digit_val_def field_of_def)


text \<open>Claim C10 as amended: the loop handles the input as the list \<open>input_lines\<close> of its
  lines. A line ended by a newline loses the newline and one carriage return right before
  it; a non-empty final line without a newline is a line too, taken as it is (a carriage
  return at its end stays), and goes through the same loop body into batching or
  splitting.\<close>

theorem line_framing:
  "ending rdr = EOF \<Longrightarrow> CHR 0x0A \<notin> set l \<Longrightarrow>
   gen_loop args tmpl resep rdr lines w
     = gen_lines args tmpl resep (input_lines (content rdr)) lines w
   \<and> input_lines (l @ [CHR 0x0D, CHR 0x0A] @ rest) = l # input_lines rest
   \<and> input_lines (l @ [CHR 0x0A] @ rest) = chomp_cr l # input_lines rest
   \<and> input_lines l = (if l = [] then [] else [l])"
proof -
  assume e: "ending rdr = EOF" and nl: "CHR 0x0A \<notin> set l"
  from nl have "CHR 0x0A \<notin> set (l @ [CHR 0x0D])" by simp
  then have "input_lines ((l @ [CHR 0x0D]) @ CHR 0x0A # rest)
      = chomp_cr (l @ [CHR 0x0D]) # input_lines rest"
    by (rule input_lines_terminated)
  then have "input_lines (l @ [CHR 0x0D, CHR 0x0A] @ rest) = l # input_lines rest"
    by (simp add: chomp_cr_def)
  with e nl show ?thesis
    by (simp add: gen_loop_lines input_lines_terminated input_lines_last input_lines_Nil)
qed

theorem line_framing_witness:
  "input_lines (''a'' @ [CHR 0x0D, CHR 0x0A] @ ''b'') = [''a'', ''b'']
   \<and> gen_loop
       \<lparr>Procs = 1, Nlines = 1, Command = ''echo'', Sep = [], Verbose = False,
         ContinueOnError = False, Ordered = False, DryRun = False\<rparr>
       [TextNode ''echo''] None
       \<lparr>content = ''a'' @ [CHR 0x0D, CHR 0x0A] @ ''b'', ending = EOF\<rparr> []
       \<lparr>stderr = [], stdout = [], ch = []\<rparr>
     = gen_lines
       \<lparr>Procs = 1, Nlines = 1, Command = ''echo'', Sep = [], Verbose = False,
         ContinueOnError = False, Ordered = False, DryRun = False\<rparr>
       [TextNode ''echo''] None [''a'', ''b''] []
       \<lparr>stderr = [], stdout = [], ch = []\<rparr>"
  using line_framing [of "\<lparr>content = ''a'' @ [CHR 0x0D, CHR 0x0A] @ ''b'', ending = EOF\<rparr>" "''a''"
      "\<lparr>Procs = 1, Nlines = 1, Command = ''echo'', Sep = [], Verbose = False,
         ContinueOnError = False, Ordered = False, DryRun = False\<rparr>"
      "[TextNode ''echo'']" None "[]" "\<lparr>stderr = [], stdout = [], ch = []\<rparr>" "''b''"]
    line_framing [of "\<lparr>content = ''a'' @ [CHR 0x0D, CHR 0x0A] @ ''b'', ending = EOF\<rparr>" "''b''"
      "\<lparr>Procs = 1, Nlines = 1, Command = ''echo'', Sep = [], Verbose = False,
         ContinueOnError = False, Ordered = False, DryRun = False\<rparr>"
      "[TextNode ''echo'']" None "[]" "\<lparr>stderr = [], stdout = [], ch = []\<rparr>" "[]"]
  by simp











lemma genCommands_sep:
  "Sep args \<noteq> [] \<Longrightarrow> compile (Sep args) = Some split \<Longrightarrow> 0 \<le> Nlines args \<Longrightarrow>
   ending rdr = EOF \<Longrightarrow>
   genCommands compile args tmpl (Inr rdr) w
     = gen_finish args tmpl (gen_lines args tmpl (Some split) (input_lines (content rdr)) [] w)"
  by (simp add: genCommands_def gen_loop_lines)



lemma sep_mode_lines:
  assumes "Nlines args \<noteq> 0"
  shows "\<forall>l \<in> set ls. Execute tmpl \<lparr>Lines = [l], Xs = split l\<rparr> = Inr (r l) \<Longrightarrow>
    gen_lines args tmpl (Some split) ls [] w = (handleCommands args (map r ls) w, Inr [])"
  using assms by (induction ls arbitrary: w) (simp_all add: gen_step_def)

text \<open>Claim C5 says that in separator mode exactly one command is emitted per input line.
  The code does not do so when \<open>-s\<close> is given together with \<open>-n 0\<close>, which main lets
  pass: \<open>lines\<close> stays empty, so \<open>len(lines) == args.Nlines\<close> holds after every line and
  the count-mode branch renders a second time into the buffer that still holds the first
  command. For the pattern \<open>echo\<close> and the single input line \<open>a\<close> two commands are sent,
  \<open>echo\<close> and \<open>echoecho\<close>. (Lemma \<open>sep_mode_lines\<close> shows one command per line, rendered
  with \<open>Lines = [line]\<close> and \<open>Xs = split line\<close>, whenever \<open>Nlines\<close> is not zero.)\<close>

theorem separator_with_zero_batch_size:
  "ch (fst (main (\<lambda>re. Some (\<lambda>s. [s])) (\<lambda>cmds. [])
      \<lparr>Procs = 1, Nlines = 0, Command = ''echo'', Sep = '','', Verbose = False,
        ContinueOnError = False, Ordered = False, DryRun = False\<rparr>
      True (Inr \<lparr>content = ''a'' @ [CHR 0x0A], ending = EOF\<rparr>)
      \<lparr>stderr = [], stdout = [], ch = []\<rparr>)) = [''echo'', ''echoecho'']"
  by (simp add: main_def run_def makeCommandTmpl_def parse_template.simps genCommands_def gen_finish_def
      gen_loop.simps ReadString_def gen_step_def handleCommand_def run_deferred_def close_chan_def
      max_go_def Let_def)


section \<open>Rendering errors\<close>








section \<open>Dry run\<close>

lemma gen_step_dry:
  assumes "DryRun args" and "ch w = c0" and "stdout w = s0 @ unl (ch w')"
  shows "snd (gen_step (args\<lparr>DryRun := False\<rparr>) tmpl resep l lines w')
        = snd (gen_step args tmpl resep l lines w)
      \<and> ch (fst (gen_step args tmpl resep l lines w)) = c0
      \<and> stdout (fst (gen_step args tmpl resep l lines w))
        = s0 @ unl (ch (fst (gen_step (args\<lparr>DryRun := False\<rparr>) tmpl resep l lines w')))"
  using assms
  by (auto simp: gen_step_def handleCommand_def unl_def Let_def split: option.splits sum.splits)

lemma gen_lines_dry:
  assumes "DryRun args"
  shows "ch w = c0 \<Longrightarrow> stdout w = s0 @ unl (ch w') \<Longrightarrow>
      snd (gen_lines (args\<lparr>DryRun := False\<rparr>) tmpl resep ls lines w')
        = snd (gen_lines args tmpl resep ls lines w)
      \<and> ch (fst (gen_lines args tmpl resep ls lines w)) = c0
      \<and> stdout (fst (gen_lines args tmpl resep ls lines w))
        = s0 @ unl (ch (fst (gen_lines (args\<lparr>DryRun := False\<rparr>) tmpl resep ls lines w')))"
proof (induction ls arbitrary: lines w w')
  case Nil
  then show ?case by simp
next
  case (Cons l ls)
  obtain w1 r1 where g: "gen_step args tmpl resep l lines w = (w1, r1)" by (cases "gen_step args tmpl resep l lines w")
  obtain w1' r1' where g': "gen_step (args\<lparr>DryRun := False\<rparr>) tmpl resep l lines w' = (w1', r1')"
    by (cases "gen_step (args\<lparr>DryRun := False\<rparr>) tmpl resep l lines w'")
  from gen_step_dry [OF assms Cons.prems, of tmpl resep l lines] g g'
  have r: "r1' = r1" and c: "ch w1 = c0" and s: "stdout w1 = s0 @ unl (ch w1')" by simp_all
  show ?case
  proof (cases r1)
    case (Inl e)
    with g g' r c s show ?thesis by simp
  next
    case (Inr lines1)
    with g g' r Cons.IH [OF c s, of lines1] show ?thesis by simp
  qed
qed

lemma gen_finish_dry:
  assumes "DryRun args" and "ch (fst r) = c0" and "stdout (fst r) = s0 @ unl (ch (fst r'))"
    and "snd r' = snd r"
  shows "snd (gen_finish (args\<lparr>DryRun := False\<rparr>) tmpl r') = snd (gen_finish args tmpl r)
      \<and> ch (fst (gen_finish args tmpl r)) = c0
      \<and> stdout (fst (gen_finish args tmpl r))
        = s0 @ unl (ch (fst (gen_finish (args\<lparr>DryRun := False\<rparr>) tmpl r')))"
  using assms
  by (cases r; cases r')
    (auto simp: gen_finish_def handleCommand_def unl_def Let_def split: sum.splits)


lemma gen_loop_unfold:
  "ReadString rdr = (line, err, rdr') \<Longrightarrow>
   gen_loop args tmpl resep rdr lines w =
     (if err = None \<or> (err = Some EOF \<and> line \<noteq> []) then
        (case gen_step args tmpl resep (strip_newlines line) lines w of
           (w1, Inl e) \<Rightarrow> (w1, Inl e)
         | (w1, Inr lines1) \<Rightarrow> gen_loop args tmpl resep rdr' lines1 w1)
      else if err = Some EOF then (w, Inr lines)
      else (w, Inl ReadError))"
  by (subst gen_loop.simps) simp

lemma gen_loop_dry:
  "DryRun args \<Longrightarrow> ch w = c0 \<Longrightarrow> stdout w = s0 @ unl (ch w') \<Longrightarrow>
      snd (gen_loop (args\<lparr>DryRun := False\<rparr>) tmpl resep rdr lines w')
        = snd (gen_loop args tmpl resep rdr lines w)
      \<and> ch (fst (gen_loop args tmpl resep rdr lines w)) = c0
      \<and> stdout (fst (gen_loop args tmpl resep rdr lines w))
        = s0 @ unl (ch (fst (gen_loop (args\<lparr>DryRun := False\<rparr>) tmpl resep rdr lines w')))"
proof (induction args tmpl resep rdr lines w arbitrary: w' rule: gen_loop.induct)
  case (1 args tmpl resep rdr lines w)
  obtain line err rdr' where rs: "ReadString rdr = (line, err, rdr')"
    by (cases "ReadString rdr") auto
  note u = gen_loop_unfold [OF rs, of args tmpl resep lines w]
  note u' = gen_loop_unfold [OF rs, of "args\<lparr>DryRun := False\<rparr>" tmpl resep lines w']
  show ?case
  proof (cases "err = None \<or> (err = Some EOF \<and> line \<noteq> [])")
    case False
    then have "gen_loop args tmpl resep rdr lines w
        = (if err = Some EOF then (w, Inr lines) else (w, Inl ReadError))"
      and "gen_loop (args\<lparr>DryRun := False\<rparr>) tmpl resep rdr lines w'
        = (if err = Some EOF then (w', Inr lines) else (w', Inl ReadError))"
      unfolding u u' by (simp_all only: if_False)
    with 1(2-) show ?thesis by simp
  next
    case True
    obtain w1 r1 where g: "gen_step args tmpl resep (strip_newlines line) lines w = (w1, r1)"
      by (cases "gen_step args tmpl resep (strip_newlines line) lines w")
    obtain w1' r1' where g': "gen_step (args\<lparr>DryRun := False\<rparr>) tmpl resep (strip_newlines line) lines w' = (w1', r1')"
      by (cases "gen_step (args\<lparr>DryRun := False\<rparr>) tmpl resep (strip_newlines line) lines w'")
    from gen_step_dry [OF 1(2,3,4), of tmpl resep "strip_newlines line" lines] g g'
    have r: "r1' = r1" and c: "ch w1 = c0" and s: "stdout w1 = s0 @ unl (ch w1')" by simp_all
    show ?thesis
    proof (cases r1)
      case (Inl e)
      with g g' r c s True show ?thesis unfolding u u' by simp
    next
      case (Inr lines1)
      from 1(1) [OF rs [symmetric] refl True g [symmetric] Inr 1(2) c s]
      have "snd (gen_loop (args\<lparr>DryRun := False\<rparr>) tmpl resep rdr' lines1 w1')
          = snd (gen_loop args tmpl resep rdr' lines1 w1)
        \<and> ch (fst (gen_loop args tmpl resep rdr' lines1 w1)) = c0
        \<and> stdout (fst (gen_loop args tmpl resep rdr' lines1 w1))
          = s0 @ unl (ch (fst (gen_loop (args\<lparr>DryRun := False\<rparr>) tmpl resep rdr' lines1 w1')))" .
      with Inr g g' r True show ?thesis unfolding u u' by simp
    qed
  qed
qed

lemma genCommands_dry:
  assumes "DryRun args"
  shows "snd (genCommands compile (args\<lparr>DryRun := False\<rparr>) tmpl opened \<lparr>stderr = [], stdout = [], ch = []\<rparr>)
        = snd (genCommands compile args tmpl opened w)
      \<and> ch (fst (genCommands compile args tmpl opened w)) = ch w
      \<and> stdout (fst (genCommands compile args tmpl opened w))
        = stdout w @ unl (ch (fst (genCommands compile (args\<lparr>DryRun := False\<rparr>) tmpl opened
              \<lparr>stderr = [], stdout = [], ch = []\<rparr>)))"
proof -
  have u: "stdout w = stdout w @ unl (ch \<lparr>stderr = [], stdout = [], ch = []\<rparr>)"
    by (simp add: unl_def)
  have f: "snd (gen_finish (args\<lparr>DryRun := False\<rparr>) tmpl
            (gen_loop (args\<lparr>DryRun := False\<rparr>) tmpl resep rdr [] \<lparr>stderr = [], stdout = [], ch = []\<rparr>))
        = snd (gen_finish args tmpl (gen_loop args tmpl resep rdr [] w))
      \<and> ch (fst (gen_finish args tmpl (gen_loop args tmpl resep rdr [] w))) = ch w
      \<and> stdout (fst (gen_finish args tmpl (gen_loop args tmpl resep rdr [] w)))
        = stdout w @ unl (ch (fst (gen_finish (args\<lparr>DryRun := False\<rparr>) tmpl
            (gen_loop (args\<lparr>DryRun := False\<rparr>) tmpl resep rdr [] \<lparr>stderr = [], stdout = [], ch = []\<rparr>))))"
    for resep rdr
    using gen_loop_dry [OF assms refl u, of tmpl resep rdr "[]"]
    by (intro gen_finish_dry [OF assms]) simp_all
  show ?thesis
    by (cases opened; cases "compile (Sep args)")
      (simp_all add: genCommands_def f, simp_all add: unl_def)
qed


text \<open>Claim C8 says that in dry-run mode the final exit status is the success code for every
  input. Counterexample: with the pattern \<open>{1}\<close>, batches of one line and the input line
  \<open>a\<close>, rendering fails and the process exits with status 1.\<close>

theorem dry_run_render_error_exits_nonzero:
  "snd (main (\<lambda>re. None) (\<lambda>cmds. [])
     \<lparr>Procs = 1, Nlines = 1, Command = ''{1}'', Sep = [], Verbose = False,
       ContinueOnError = False, Ordered = False, DryRun = True\<rparr>
     True (Inr \<lparr>content = [CHR ''a'', CHR 0x0A], ending = EOF\<rparr>)
     \<lparr>stderr = [], stdout = [], ch = []\<rparr>) = Exited 1"
  by (simp add: main_def run_def makeCommandTmpl_def parse_template.simps parse_action_def
      parse_number_def is_digit_def decimal_def digit_val_def genCommands_def gen_finish_def
      gen_loop.simps ReadString_def gen_step_def handleCommand_def field_of_def Let_def)


text \<open>Claim C8 as amended: in dry-run mode genCommands sends nothing on the channel, and what
  it writes to standard output is exactly the commands that the same run without dry-run would
  send to the engine, one per line and in that order. If the start-up checks pass, the pattern
  compiles and generation ends by closing the channel (no fatal error), and the engine returns
  no result for no command, the process exits with status 0.\<close>

theorem dry_run_prints_commands:
  assumes "DryRun args"
  shows "ch (fst (genCommands compile args tmpl opened w)) = ch w
     \<and> stdout (fst (genCommands compile args tmpl opened w))
       = stdout w @ unl (ch (fst (genCommands compile (args\<lparr>DryRun := False\<rparr>) tmpl opened
             \<lparr>stderr = [], stdout = [], ch = []\<rparr>)))
     \<and> (\<not> (Sep args \<noteq> [] \<and> Nlines args > 1) \<longrightarrow> is_stdin \<longrightarrow>
          makeCommandTmpl (Command args) = Inr tmpl \<longrightarrow>
          snd (genCommands compile args tmpl opened w) = ChannelClosed \<longrightarrow>
          ch w = [] \<longrightarrow> runner [] = [] \<longrightarrow>
          main compile runner args is_stdin opened w
            = (fst (genCommands compile args tmpl opened w), Exited 0))"
proof -
  note d = genCommands_dry [OF assms, of compile tmpl opened w]
  have "main compile runner args is_stdin opened w
      = (fst (genCommands compile args tmpl opened w), Exited 0)"
    if h: "\<not> (Sep args \<noteq> [] \<and> Nlines args > 1)" "is_stdin"
      "makeCommandTmpl (Command args) = Inr tmpl"
      and c: "snd (genCommands compile args tmpl opened w) = ChannelClosed"
      and e: "ch w = []" and r: "runner [] = []"
  proof -
    obtain w1 where g: "genCommands compile args tmpl opened w = (w1, ChannelClosed)"
      using c by (cases "genCommands compile args tmpl opened w") auto
    with d e have "ch w1 = []" by simp
    with g h r show ?thesis
      by (simp add: main_def run_def run_deferred_def close_chan_def)
  qed
  with d show ?thesis by blast
qed

theorem dry_run_prints_commands_witness:
  "main (\<lambda>re. None) (\<lambda>cmds. [])
     \<lparr>Procs = 1, Nlines = 1, Command = ''echo {}'', Sep = [], Verbose = False,
       ContinueOnError = False, Ordered = False, DryRun = True\<rparr>
     True (Inr \<lparr>content = [CHR ''a'', CHR 0x0A, CHR ''b'', CHR 0x0A], ending = EOF\<rparr>)
     \<lparr>stderr = [], stdout = [], ch = []\<rparr>
   = (\<lparr>stderr = [], stdout = ''echo a'' @ [CHR 0x0A] @ ''echo b'' @ [CHR 0x0A], ch = []\<rparr>, Exited 0)"
proof -
  have t: "makeCommandTmpl ''echo {}'' = Inr [TextNode ''echo '', IndexNode FLines 0, TextNode []]"
    by (simp add: makeCommandTmpl_def parse_template.simps parse_action_def parse_number_def
        is_digit_def decimal_def digit_val_def)
  have g: "genCommands (\<lambda>re. None)
     \<lparr>Procs = 1, Nlines = 1, Command = ''echo {}'', Sep = [], Verbose = False,
       ContinueOnError = False, Ordered = False, DryRun = True\<rparr>
     [TextNode ''echo '', IndexNode FLines 0, TextNode []]
     (Inr \<lparr>content = [CHR ''a'', CHR 0x0A, CHR ''b'', CHR 0x0A], ending = EOF\<rparr>)
     \<lparr>stderr = [], stdout = [], ch = []\<rparr>
   = (\<lparr>stderr = [], stdout = ''echo a'' @ [CHR 0x0A] @ ''echo b'' @ [CHR 0x0A], ch = []\<rparr>, ChannelClosed)"
    by (simp add: genCommands_def gen_finish_def gen_loop.simps ReadString_def gen_step_def
        handleCommand_def field_of_def Let_def)
  show ?thesis
    using dry_run_prints_commands [of
      "\<lparr>Procs = 1, Nlines = 1, Command = ''echo {}'', Sep = [], Verbose = False,
         ContinueOnError = False, Ordered = False, DryRun = True\<rparr>"
      "\<lambda>re. None" "[TextNode ''echo '', IndexNode FLines 0, TextNode []]"
      "Inr \<lparr>content = [CHR ''a'', CHR 0x0A, CHR ''b'', CHR 0x0A], ending = EOF\<rparr>"
      "\<lparr>stderr = [], stdout = [], ch = []\<rparr>" True "\<lambda>cmds. []"]
    by (simp add: t g)
qed


section \<open>The compiled template\<close>



























lemma exec_elem: "exec_node (IndexNode f n) a = elem (field_of f a) n"
  by (simp add: elem_def)








end
